theory Spec2Isabelle
  imports Main "HOL-Library.List_Lexorder" "HOL-Library.Char_ord" "HOL-Library.Multiset"
    "HOL-Library.Sublist"
begin

section \<open>Python values\<close>

text \<open>
  The web server exchanges JSON documents: request bodies, version metadata, the payload
  of a change record and the field dictionary of \<^verbatim>\<open>update_asset\<close>. A document is a
  value of \<open>json\<close>; an object keeps its keys in order, as a Python \<^verbatim>\<open>dict\<close> does
  (a \<^verbatim>\<open>dict\<close> never holds a key twice). Numbers with a fraction are not modelled.
  Strings are byte strings (UTF-8); their order is the lexicographic order of the bytes,
  which is how SQLite compares \<^verbatim>\<open>TEXT\<close> under its default collation.
\<close>

datatype json =
    JNull
  | JBool bool
  | JInt int
  | JStr string
  | JList "json list"
  | JObj "(string \<times> json) list"

text \<open>Python's truth value of a JSON value (\<^verbatim>\<open>if x\<close>, \<^verbatim>\<open>x or y\<close>, \<^verbatim>\<open>not x\<close>).\<close>

fun truthy :: "json \<Rightarrow> bool" where
  "truthy JNull = False"
| "truthy (JBool b) = b"
| "truthy (JInt i) = (i \<noteq> 0)"
| "truthy (JStr s) = (s \<noteq> [])"
| "truthy (JList xs) = (xs \<noteq> [])"
| "truthy (JObj kvs) = (kvs \<noteq> [])"

section \<open>Persistence layer (web\_server/db.py)\<close>

text \<open>
  The five tables of \<^verbatim>\<open>init_db\<close>. A table is the list of its rows in insertion order
  (the position stands for the \<^verbatim>\<open>AUTOINCREMENT\<close> id, which no query reads). A
  \<^verbatim>\<open>TEXT\<close> column that \<^verbatim>\<open>update_asset\<close> can write holds \<open>None\<close> for SQL
  \<^verbatim>\<open>NULL\<close>. The JSON text of \<^verbatim>\<open>metadata_json\<close> and \<^verbatim>\<open>payload_json\<close> is
  represented by the document it encodes (\<^verbatim>\<open>json.loads (json.dumps d) = d\<close>).
  Every function runs in one \<^verbatim>\<open>conn_rw\<close> block, which commits at its end: a function
  of the model maps the committed state before the call to the committed state after
  it. The clock reading \<^verbatim>\<open>utcnow()\<close> is the parameter \<open>now\<close>. Integers are taken
  within the range of SQLite's 64-bit \<^verbatim>\<open>INTEGER\<close>; lock time-outs and I/O failures
  are outside the model.
\<close>

record asset =
  a_id :: string
  a_name :: "string option"
  a_family :: string
  a_description :: "string option"
  a_tags :: "string option"
  a_status :: "string option"
  a_created_at :: string
  a_updated_at :: string

record version_row =
  v_asset_id :: string
  v_version :: int
  v_metadata_json :: json
  v_thumbnail_path :: string
  v_archived :: int
  v_created_at :: string
  v_updated_at :: string

record file_row =
  f_asset_id :: string
  f_version :: int
  f_filename :: string
  f_rel_path :: string
  f_format :: string
  f_size_bytes :: int

record comment_row =
  c_asset_id :: string
  c_author :: string
  c_body :: string
  c_created_at :: string

record change_row =
  ch_change_type :: string
  ch_asset_id :: string
  ch_payload_json :: json
  ch_created_at :: string

record database =
  assets :: "asset list"
  versions :: "version_row list"
  files :: "file_row list"
  comments :: "comment_row list"
  changes :: "change_row list"

text \<open>\<^verbatim>\<open>init_db\<close> on a fresh database file: the five tables, empty.\<close>

definition init_db :: database where
  "init_db = \<lparr>assets = [], versions = [], files = [], comments = [], changes = []\<rparr>"

text \<open>The statement \<^verbatim>\<open>INSERT INTO changes(change_type, asset_id, payload_json, created_at)\<close>,
  which every mutating function issues inline.\<close>

definition insert_change :: "database \<Rightarrow> string \<Rightarrow> string \<Rightarrow> json \<Rightarrow> string \<Rightarrow> database" where
  "insert_change db change_type asset_id payload now =
     db\<lparr>changes := changes db @
       [\<lparr>ch_change_type = change_type, ch_asset_id = asset_id,
         ch_payload_json = payload, ch_created_at = now\<rparr>]\<rparr>"

definition log_change :: "database \<Rightarrow> string \<Rightarrow> string \<Rightarrow> string \<Rightarrow> json \<Rightarrow> database" where
  "log_change db now change_type asset_id payload =
     insert_change db change_type asset_id payload now"

definition ensure_asset ::
  "database \<Rightarrow> string \<Rightarrow> string \<Rightarrow> string \<Rightarrow> string \<Rightarrow> string \<Rightarrow> string \<Rightarrow> database" where
  "ensure_asset db now asset_id name family description tags =
     (let db1 =
        (if \<exists>a \<in> set (assets db). a_id a = asset_id
         then db\<lparr>assets :=
                map (\<lambda>a. if a_id a = asset_id
                         then a\<lparr>a_name := Some name, a_family := family, a_updated_at := now\<rparr>
                         else a)
                    (assets db)\<rparr>
         else db\<lparr>assets := assets db @
                [\<lparr>a_id = asset_id, a_name = Some name, a_family = family,
                  a_description = Some description, a_tags = Some tags,
                  a_status = Some ''published'', a_created_at = now, a_updated_at = now\<rparr>]\<rparr>)
      in insert_change db1 ''asset_upsert'' asset_id
           (JObj [(''name'', JStr name), (''family'', JStr family)]) now)"

text \<open>\<^verbatim>\<open>INSERT OR IGNORE\<close> skips the row when one with the same
  \<^verbatim>\<open>(asset_id, version)\<close> exists (the table's \<^verbatim>\<open>UNIQUE\<close> constraint); the
  \<^verbatim>\<open>UPDATE\<close> that follows rewrites every row of the pair.\<close>

definition upsert_version ::
  "database \<Rightarrow> string \<Rightarrow> string \<Rightarrow> int \<Rightarrow> json \<Rightarrow> string \<Rightarrow> database" where
  "upsert_version db now asset_id version metadata thumbnail_path =
     (let vs1 =
        (if \<exists>r \<in> set (versions db). v_asset_id r = asset_id \<and> v_version r = version
         then versions db
         else versions db @
                [\<lparr>v_asset_id = asset_id, v_version = version, v_metadata_json = metadata,
                  v_thumbnail_path = thumbnail_path, v_archived = 0,
                  v_created_at = now, v_updated_at = now\<rparr>]);
          vs2 =
            map (\<lambda>r. if v_asset_id r = asset_id \<and> v_version r = version
                     then r\<lparr>v_metadata_json := metadata, v_thumbnail_path := thumbnail_path,
                            v_updated_at := now\<rparr>
                     else r) vs1
      in insert_change (db\<lparr>versions := vs2\<rparr>) ''version_upsert'' asset_id
           (JObj [(''version'', JInt version)]) now)"

text \<open>\<^verbatim>\<open>add_file\<close> reads the clock once, for the change record.\<close>

definition add_file ::
  "database \<Rightarrow> string \<Rightarrow> string \<Rightarrow> int \<Rightarrow> string \<Rightarrow> string \<Rightarrow> string \<Rightarrow> int \<Rightarrow> database" where
  "add_file db now asset_id version filename rel_path fmt size_bytes =
     insert_change
       (db\<lparr>files := files db @
          [\<lparr>f_asset_id = asset_id, f_version = version, f_filename = filename,
            f_rel_path = rel_path, f_format = fmt, f_size_bytes = size_bytes\<rparr>]\<rparr>)
       ''file_added'' asset_id
       (JObj [(''version'', JInt version), (''filename'', JStr filename)]) now"

definition archive_version :: "database \<Rightarrow> string \<Rightarrow> string \<Rightarrow> int \<Rightarrow> database" where
  "archive_version db now asset_id version =
     insert_change
       (db\<lparr>versions :=
          map (\<lambda>r. if v_asset_id r = asset_id \<and> v_version r = version
                   then r\<lparr>v_archived := 1, v_updated_at := now\<rparr> else r)
              (versions db)\<rparr>)
       ''version_archived'' asset_id (JObj [(''version'', JInt version)]) now"

definition delete_version :: "database \<Rightarrow> string \<Rightarrow> string \<Rightarrow> int \<Rightarrow> database" where
  "delete_version db now asset_id version =
     insert_change
       (db\<lparr>files := filter (\<lambda>f. \<not> (f_asset_id f = asset_id \<and> f_version f = version)) (files db),
           versions :=
             filter (\<lambda>r. \<not> (v_asset_id r = asset_id \<and> v_version r = version)) (versions db)\<rparr>)
       ''version_deleted'' asset_id (JObj [(''version'', JInt version)]) now"

definition delete_asset :: "database \<Rightarrow> string \<Rightarrow> string \<Rightarrow> database" where
  "delete_asset db now asset_id =
     insert_change
       (db\<lparr>files := filter (\<lambda>f. f_asset_id f \<noteq> asset_id) (files db),
           versions := filter (\<lambda>r. v_asset_id r \<noteq> asset_id) (versions db),
           comments := filter (\<lambda>c. c_asset_id c \<noteq> asset_id) (comments db),
           assets := filter (\<lambda>a. a_id a \<noteq> asset_id) (assets db)\<rparr>)
       ''asset_deleted'' asset_id (JObj []) now"

definition add_comment :: "database \<Rightarrow> string \<Rightarrow> string \<Rightarrow> string \<Rightarrow> string \<Rightarrow> database" where
  "add_comment db now asset_id author body =
     insert_change
       (db\<lparr>comments := comments db @
          [\<lparr>c_asset_id = asset_id, c_author = author, c_body = body, c_created_at = now\<rparr>]\<rparr>)
       ''comment'' asset_id (JObj [(''author'', JStr author)]) now"

subsection \<open>Binding values and updating an asset\<close>

text \<open>
  The \<^verbatim>\<open>sqlite3\<close> driver binds \<^verbatim>\<open>None\<close>, integers (a \<^verbatim>\<open>bool\<close> is an integer) and
  strings; a list or a dictionary is refused with an exception. A \<^verbatim>\<open>TEXT\<close>
  column stores an integer as its decimal text.
\<close>

datatype sqlval = SNull | SInt int | SText string

fun bind :: "json \<Rightarrow> sqlval option" where
  "bind JNull = Some SNull"
| "bind (JBool b) = Some (SInt (if b then 1 else 0))"
| "bind (JInt i) = Some (SInt i)"
| "bind (JStr s) = Some (SText s)"
| "bind (JList xs) = None"
| "bind (JObj kvs) = None"

function dec_nat :: "nat \<Rightarrow> string" where
  "dec_nat n = (if n < 10 then [char_of (48 + n)]
                else dec_nat (n div 10) @ [char_of (48 + n mod 10)])"
  by pat_completeness auto
termination
  by (relation "measure id") auto

definition dec_int :: "int \<Rightarrow> string" where
  "dec_int i = (if i < 0 then CHR ''-'' # dec_nat (nat (- i)) else dec_nat (nat i))"

fun text_affinity :: "sqlval \<Rightarrow> string option" where
  "text_affinity SNull = None"
| "text_affinity (SInt i) = Some (dec_int i)"
| "text_affinity (SText s) = Some s"

text \<open>
  The exceptions the modelled code can raise. \<open>BindingError\<close> is the driver's
  refusal to bind a parameter (\<^verbatim>\<open>sqlite3.ProgrammingError\<close>, in older versions of
  Python \<^verbatim>\<open>sqlite3.InterfaceError\<close>). An exception that leaves a \<^verbatim>\<open>conn_rw\<close>
  block skips the commit: nothing is written.
\<close>

datatype exc = AttributeError | TypeError | ValueError | BindingError

definition allow :: "string set" where
  "allow = {''name'', ''description'', ''tags'', ''status''}"

text \<open>One assignment \<^verbatim>\<open>k = ?\<close> of the \<^verbatim>\<open>SET\<close> list, applied to a row.\<close>

fun set_column :: "asset \<Rightarrow> string \<times> string option \<Rightarrow> asset" where
  "set_column a (k, v) =
     (if k = ''name'' then a\<lparr>a_name := v\<rparr>
      else if k = ''description'' then a\<lparr>a_description := v\<rparr>
      else if k = ''tags'' then a\<lparr>a_tags := v\<rparr>
      else if k = ''status'' then a\<lparr>a_status := v\<rparr>
      else a)"

text \<open>
  \<^verbatim>\<open>update_asset\<close> returns before it reads the clock or opens a connection when no
  key of the dictionary (\<open>flds\<close>, the source's \<^verbatim>\<open>fields\<close>) is allowed. Otherwise
  the \<^verbatim>\<open>UPDATE\<close> binds the allowed values, in the order of the dictionary, then
  the clock reading and the asset id; the change record carries the allowed fields.
\<close>

definition update_asset ::
  "database \<Rightarrow> string \<Rightarrow> string \<Rightarrow> (string \<times> json) list \<Rightarrow> exc + database" where
  "update_asset db now asset_id flds =
     (let sets = map fst (filter (\<lambda>(k, v). k \<in> allow) flds);
          params = map snd (filter (\<lambda>(k, v). k \<in> allow) flds)
      in if sets = [] then Inr db
         else (case those (map bind params) of
                 None \<Rightarrow> Inl BindingError
               | Some bound \<Rightarrow>
                   Inr (insert_change
                     (db\<lparr>assets :=
                        map (\<lambda>a. if a_id a = asset_id
                                 then (foldl set_column a (zip sets (map text_affinity bound)))
                                        \<lparr>a_updated_at := now\<rparr>
                                 else a)
                            (assets db)\<rparr>)
                     ''asset_update'' asset_id
                     (JObj (filter (\<lambda>(k, v). k \<in> allow) flds)) now)))"


definition stored :: "json \<Rightarrow> string option" where
  "stored v = (case bind v of None \<Rightarrow> None | Some b \<Rightarrow> text_affinity b)"

subsection \<open>Reading an asset\<close>

record version_view =
  vv_version :: int
  vv_metadata :: json
  vv_thumbnail_path :: string
  vv_archived :: bool
  vv_created_at :: string
  vv_updated_at :: string

record file_view =
  fv_version :: int
  fv_filename :: string
  fv_rel_path :: string
  fv_format :: string
  fv_size_bytes :: int

record asset_view =
  av_id :: string
  av_name :: "string option"
  av_family :: string
  av_description :: "string option"
  av_tags :: "string option"
  av_status :: "string option"
  av_created_at :: string
  av_updated_at :: string
  av_versions :: "version_view list"
  av_files :: "file_view list"

text \<open>\<^verbatim>\<open>get_asset\<close>: the first row with the id, its versions by descending number, its
  files in table order; \<open>None\<close> when no row has the id.\<close>

definition get_asset :: "database \<Rightarrow> string \<Rightarrow> asset_view option" where
  "get_asset db asset_id =
     (case find (\<lambda>a. a_id a = asset_id) (assets db) of
        None \<Rightarrow> None
      | Some a \<Rightarrow>
          Some \<lparr>av_id = a_id a, av_name = a_name a, av_family = a_family a,
                av_description = a_description a, av_tags = a_tags a, av_status = a_status a,
                av_created_at = a_created_at a, av_updated_at = a_updated_at a,
                av_versions =
                  map (\<lambda>r. \<lparr>vv_version = v_version r, vv_metadata = v_metadata_json r,
                             vv_thumbnail_path = v_thumbnail_path r,
                             vv_archived = (v_archived r \<noteq> 0),
                             vv_created_at = v_created_at r, vv_updated_at = v_updated_at r\<rparr>)
                      (sort_key (\<lambda>r. - v_version r)
                         (filter (\<lambda>r. v_asset_id r = asset_id) (versions db))),
                av_files =
                  map (\<lambda>f. \<lparr>fv_version = f_version f, fv_filename = f_filename f,
                             fv_rel_path = f_rel_path f, fv_format = f_format f,
                             fv_size_bytes = f_size_bytes f\<rparr>)
                      (filter (\<lambda>f. f_asset_id f = asset_id) (files db))\<rparr>)"

subsection \<open>Sequences of mutating calls\<close>

text \<open>A call of one of the eight mutating functions, with its arguments.\<close>

datatype op =
    Ensure_asset string string string string string
  | Upsert_version string int json string
  | Add_file string int string string string int
  | Update_asset string "(string \<times> json) list"
  | Archive_version string int
  | Delete_version string int
  | Delete_asset string
  | Add_comment string string string

text \<open>The state a call leaves, the clock reading \<open>now\<close> at the call; a call that raises
  leaves the state it found.\<close>

fun call :: "database \<Rightarrow> string \<times> op \<Rightarrow> database" where
  "call db (now, Ensure_asset asset_id name family description tags) =
     ensure_asset db now asset_id name family description tags"
| "call db (now, Upsert_version asset_id version metadata thumbnail_path) =
     upsert_version db now asset_id version metadata thumbnail_path"
| "call db (now, Add_file asset_id version filename rel_path fmt size_bytes) =
     add_file db now asset_id version filename rel_path fmt size_bytes"
| "call db (now, Update_asset asset_id flds) =
     (case update_asset db now asset_id flds of Inl e \<Rightarrow> db | Inr db' \<Rightarrow> db')"
| "call db (now, Archive_version asset_id version) = archive_version db now asset_id version"
| "call db (now, Delete_version asset_id version) = delete_version db now asset_id version"
| "call db (now, Delete_asset asset_id) = delete_asset db now asset_id"
| "call db (now, Add_comment asset_id author body) = add_comment db now asset_id author body"

definition run :: "database \<Rightarrow> (string \<times> op) list \<Rightarrow> database" where
  "run db calls = foldl call db calls"

text \<open>The \<open>change_type\<close> each function writes.\<close>

fun change_type_of :: "op \<Rightarrow> string" where
  "change_type_of (Ensure_asset asset_id name family description tags) = ''asset_upsert''"
| "change_type_of (Upsert_version asset_id version metadata thumbnail_path) = ''version_upsert''"
| "change_type_of (Add_file asset_id version filename rel_path fmt size_bytes) = ''file_added''"
| "change_type_of (Update_asset asset_id flds) = ''asset_update''"
| "change_type_of (Archive_version asset_id version) = ''version_archived''"
| "change_type_of (Delete_version asset_id version) = ''version_deleted''"
| "change_type_of (Delete_asset asset_id) = ''asset_deleted''"
| "change_type_of (Add_comment asset_id author body) = ''comment''"

text \<open>The calls that write: all but an \<^verbatim>\<open>update_asset\<close> whose dictionary holds no allowed
  key, or holds an allowed key with a value the driver cannot bind.\<close>

fun writes :: "op \<Rightarrow> bool" where
  "writes (Update_asset asset_id flds) =
     (filter (\<lambda>(k, v). k \<in> allow) flds \<noteq> [] \<and>
      (\<forall>(k, v) \<in> set flds. k \<in> allow \<longrightarrow> bind v \<noteq> None))"
| "writes other = True"




text \<open>The \<^verbatim>\<open>UNIQUE(asset_id, version)\<close> constraint of the versions table.\<close>

definition unique_versions :: "database \<Rightarrow> bool" where
  "unique_versions db = distinct (map (\<lambda>r. (v_asset_id r, v_version r)) (versions db))"

subsection \<open>The change feed\<close>




text \<open>Every change record carries a clock reading; \<^verbatim>\<open>utcnow().isoformat()\<close> is never the
  empty string.\<close>

definition stamped :: "database \<Rightarrow> bool" where
  "stamped db = (\<forall>c \<in> set (changes db). ch_created_at c \<noteq> [])"

section \<open>Storage layer (web\_server/storage.py)\<close>


fun join_sep :: "string \<Rightarrow> string list \<Rightarrow> string" where
  "join_sep sep [] = []"
| "join_sep sep [x] = x"
| "join_sep sep (x # y # ys) = x @ sep @ join_sep sep (y # ys)"









section \<open>Auth layer (web\_server/auth.py)\<close>

definition role_rank :: "(string \<times> nat) list" where
  "role_rank = [(''viewer'', 1), (''editor'', 2), (''admin'', 3)]"

definition DEFAULT_KEYS :: "string \<Rightarrow> string option" where
  "DEFAULT_KEYS =
     map_of [(''demo-view'', ''viewer''), (''demo-edit'', ''editor''), (''demo-admin'', ''admin'')]"

text \<open>\<^verbatim>\<open>d.get(k, default)\<close> on a dictionary given as an association list.\<close>

definition get_or :: "('k \<times> 'v) list \<Rightarrow> 'k \<Rightarrow> 'v \<Rightarrow> 'v" where
  "get_or d k dflt = (case map_of d k of None \<Rightarrow> dflt | Some v \<Rightarrow> v)"

text \<open>
  What a handler answers: \<^verbatim>\<open>jsonify(body), status\<close>; \<^verbatim>\<open>send_file(path, download_name)\<close>;
  an exception that leaves the handler (the framework answers 500). \<open>Untyped_call\<close>
  marks a request on which the handler hands a persistence function a value that is not
  of the function's declared parameter type (a name that is a number, say): what the
  driver stores then is not modelled, and the state returned with the mark says nothing.
\<close>

datatype response =
    Json nat json
  | Send_file string string
  | Raised exc
  | Untyped_call

text \<open>
  The wrapper of \<^verbatim>\<open>require_role(min_role)\<close>. \<open>header\<close> is the \<^verbatim>\<open>X-API-Key\<close> header
  (\<open>None\<close> when absent, read as the empty key), \<open>keys\<close> the table \<^verbatim>\<open>load_keys()\<close>
  returns. The result is the rejection, or the role under which the handler runs.
\<close>

definition require_role ::
  "string \<Rightarrow> (string \<Rightarrow> string option) \<Rightarrow> string option \<Rightarrow> response + string" where
  "require_role min_role keys header =
     (let api_key = (case header of None \<Rightarrow> [] | Some k \<Rightarrow> k);
          role = keys api_key
      in if role = None \<or> role = Some [] then Inl (Json 401 (JObj [(''error'', JStr ''Unauthorized'')]))
         else if get_or role_rank (the role) 0 < get_or role_rank min_role 1
              then Inl (Json 403 (JObj [(''error'', JStr ''Forbidden'')]))
         else Inr (the role))"

section \<open>API layer (web\_server/app.py)\<close>

text \<open>\<^verbatim>\<open>x or y\<close> and \<^verbatim>\<open>payload.get(key)\<close> (\<^verbatim>\<open>None\<close> for a missing key).\<close>

definition or_else :: "json \<Rightarrow> json \<Rightarrow> json" where
  "or_else x y = (if truthy x then x else y)"

definition dict_get :: "(string \<times> json) list \<Rightarrow> string \<Rightarrow> json" where
  "dict_get d k = get_or d k JNull"

text \<open>\<^verbatim>\<open>int(x)\<close> of a truthy JSON value; \<open>int_of_str\<close> is Python's reading of a string as
  an integer (\<open>None\<close>: \<^verbatim>\<open>ValueError\<close>), a parameter of the model.\<close>

fun py_int :: "(string \<Rightarrow> int option) \<Rightarrow> json \<Rightarrow> exc + int" where
  "py_int int_of_str (JInt i) = Inr i"
| "py_int int_of_str (JBool b) = Inr (if b then 1 else 0)"
| "py_int int_of_str (JStr s) = (case int_of_str s of None \<Rightarrow> Inl ValueError | Some i \<Rightarrow> Inr i)"
| "py_int int_of_str other = Inl TypeError"

text \<open>The \<^verbatim>\<open>tags\<close> of a payload: a list is joined with commas (\<^verbatim>\<open>TypeError\<close> unless all
  its items are strings); any other value is passed on, a missing key reads \<^verbatim>\<open>""\<close>.\<close>

fun str_items :: "json list \<Rightarrow> string list option" where
  "str_items [] = Some []"
| "str_items (JStr s # xs) = (case str_items xs of None \<Rightarrow> None | Some ss \<Rightarrow> Some (s # ss))"
| "str_items (other # xs) = None"

definition tags_of :: "(string \<times> json) list \<Rightarrow> exc + json" where
  "tags_of d =
     (case map_of d ''tags'' of
        Some (JList xs) \<Rightarrow>
          (case str_items xs of None \<Rightarrow> Inl TypeError | Some ss \<Rightarrow> Inr (JStr (join_sep '','' ss)))
      | Some v \<Rightarrow> Inr v
      | None \<Rightarrow> Inr (JStr []))"

text \<open>\<^verbatim>\<open>request.get_json(force=True, silent=True) or {}\<close>, where \<open>body\<close> is what
  \<^verbatim>\<open>get_json\<close> returns: \<open>None\<close> for a body that is not JSON.\<close>

definition payload_of :: "json option \<Rightarrow> json" where
  "payload_of body = or_else (case body of None \<Rightarrow> JNull | Some j \<Rightarrow> j) (JObj [])"

text \<open>
  The handler of \<^verbatim>\<open>POST /api/assets\<close>. \<open>lower\<close> is \<^verbatim>\<open>str.lower\<close>, a
  parameter; \<open>now1\<close> and \<open>now2\<close> are the clock readings of the two persistence calls.
  The statements run in the source's order, so the exception raised is the first one met.
\<close>

definition upsert_asset ::
  "(string \<Rightarrow> string) \<Rightarrow> (string \<Rightarrow> int option) \<Rightarrow> database \<Rightarrow> string \<Rightarrow> string \<Rightarrow>
   json option \<Rightarrow> response \<times> database" where
  "upsert_asset lower int_of_str db now1 now2 body =
     (case payload_of body of
        JObj payload \<Rightarrow>
          (let asset_id = or_else (dict_get payload ''asset_id'') (JStr []);
               name = or_else (dict_get payload ''name'') asset_id
           in case or_else (dict_get payload ''family'') (JStr ''unknown'') of
                JStr fam \<Rightarrow>
                  (let family = lower fam;
                       description = or_else (dict_get payload ''description'') (JStr [])
                   in case tags_of payload of
                        Inl e \<Rightarrow> (Raised e, db)
                      | Inr tags \<Rightarrow>
                          (let metadata = or_else (dict_get payload ''metadata'') (JObj [])
                           in if \<not> truthy asset_id
                              then (Json 400 (JObj [(''error'', JStr ''asset_id required'')]), db)
                              else (case py_int int_of_str
                                           (or_else (dict_get payload ''version'') (JInt 1)) of
                                      Inl e \<Rightarrow> (Raised e, db)
                                    | Inr version \<Rightarrow>
                                        (case (asset_id, name, description, tags) of
                                           (JStr a, JStr n, JStr ds, JStr t) \<Rightarrow>
                                             (Json 200 (JObj [(''asset_id'', asset_id),
                                                              (''version'', JInt version)]),
                                              upsert_version
                                                (ensure_asset db now1 a n family ds t)
                                                now2 a version metadata [])
                                         | _ \<Rightarrow> (Untyped_call, db)))))
              | _ \<Rightarrow> (Raised AttributeError, db))
      | _ \<Rightarrow> (Raised AttributeError, db))"

text \<open>The route with its decorator \<^verbatim>\<open>@require_role("editor")\<close>.\<close>

definition post_assets ::
  "(string \<Rightarrow> string) \<Rightarrow> (string \<Rightarrow> int option) \<Rightarrow> (string \<Rightarrow> string option) \<Rightarrow>
   database \<Rightarrow> string \<Rightarrow> string \<Rightarrow> string option \<Rightarrow> json option \<Rightarrow> response \<times> database" where
  "post_assets lower int_of_str keys db now1 now2 header body =
     (case require_role ''editor'' keys header of
        Inl rejection \<Rightarrow> (rejection, db)
      | Inr role \<Rightarrow> upsert_asset lower int_of_str db now1 now2 body)"


text \<open>
  Instances of the two parameters for concrete requests: \<open>ascii_lower\<close> is
  \<^verbatim>\<open>str.lower\<close> on ASCII text, and \<open>int_of_digits\<close> agrees with \<^verbatim>\<open>int\<close> on
  strings of ASCII digits (and is used on such strings only).
\<close>

definition ascii_lower :: "string \<Rightarrow> string" where
  "ascii_lower s =
     map (\<lambda>c. if CHR ''A'' \<le> c \<and> c \<le> CHR ''Z'' then char_of (of_char c + (32::nat)) else c) s"

definition int_of_digits :: "string \<Rightarrow> int option" where
  "int_of_digits s =
     (if s \<noteq> [] \<and> (\<forall>c \<in> set s. CHR ''0'' \<le> c \<and> c \<le> CHR ''9'')
      then Some (foldl (\<lambda>n c. 10 * n + (int (of_char c) - 48)) 0 s)
      else None)"

section \<open>A concrete catalogue\<close>

text \<open>The scenario of the specification: asset \<^verbatim>\<open>model_Hero\<close> published at version 1,
  then a file and a comment added.\<close>

definition hero_db :: database where
  "hero_db =
     add_comment
       (add_file
          (upsert_version
             (ensure_asset init_db ''2025-01-01T10:00:00'' ''model_Hero'' ''Hero'' ''model'' [] [])
             ''2025-01-01T10:00:00.000250'' ''model_Hero'' 1 (JObj []) [])
          ''2025-01-01T10:00:02'' ''model_Hero'' 1 ''hero.fbx''
          ''assets/model_Hero/v1/hero.fbx'' ''fbx'' 2048)
       ''2025-01-01T10:00:01'' ''model_Hero'' ''anna'' ''approved''"

section \<open>Properties of the change feed\<close>







section \<open>Properties of the versions table\<close>



lemma upsert_version_versions:
  "versions (upsert_version db now asset_id version metadata thumbnail_path) =
     map (\<lambda>r. if v_asset_id r = asset_id \<and> v_version r = version
              then r\<lparr>v_metadata_json := metadata, v_thumbnail_path := thumbnail_path,
                     v_updated_at := now\<rparr>
              else r)
       (if \<exists>r \<in> set (versions db). v_asset_id r = asset_id \<and> v_version r = version
        then versions db
        else versions db @
               [\<lparr>v_asset_id = asset_id, v_version = version, v_metadata_json = metadata,
                 v_thumbnail_path = thumbnail_path, v_archived = 0,
                 v_created_at = now, v_updated_at = now\<rparr>])"
  by (simp add: upsert_version_def insert_change_def Let_def)

lemma upsert_version_keys:
  "map (\<lambda>r. (v_asset_id r, v_version r)) (versions (upsert_version db now a v m t)) =
     (if \<exists>r \<in> set (versions db). v_asset_id r = a \<and> v_version r = v
      then map (\<lambda>r. (v_asset_id r, v_version r)) (versions db)
      else map (\<lambda>r. (v_asset_id r, v_version r)) (versions db) @ [(a, v)])"
  by (auto simp: upsert_version_versions comp_def intro!: map_cong)

lemma unique_versions_upsert:
  "unique_versions db \<Longrightarrow> unique_versions (upsert_version db now a v m t)"
  unfolding unique_versions_def upsert_version_keys by (auto simp: image_iff)




lemma hero_db_eval:
  "hero_db =
     \<lparr>assets = [\<lparr>a_id = ''model_Hero'', a_name = Some ''Hero'', a_family = ''model'',
                  a_description = Some [], a_tags = Some [], a_status = Some ''published'',
                  a_created_at = ''2025-01-01T10:00:00'', a_updated_at = ''2025-01-01T10:00:00''\<rparr>],
      versions = [\<lparr>v_asset_id = ''model_Hero'', v_version = 1, v_metadata_json = JObj [],
                    v_thumbnail_path = [], v_archived = 0,
                    v_created_at = ''2025-01-01T10:00:00.000250'',
                    v_updated_at = ''2025-01-01T10:00:00.000250''\<rparr>],
      files = [\<lparr>f_asset_id = ''model_Hero'', f_version = 1, f_filename = ''hero.fbx'',
                 f_rel_path = ''assets/model_Hero/v1/hero.fbx'', f_format = ''fbx'',
                 f_size_bytes = 2048\<rparr>],
      comments = [\<lparr>c_asset_id = ''model_Hero'', c_author = ''anna'', c_body = ''approved'',
                    c_created_at = ''2025-01-01T10:00:01''\<rparr>],
      changes = [\<lparr>ch_change_type = ''asset_upsert'', ch_asset_id = ''model_Hero'',
                   ch_payload_json = JObj [(''name'', JStr ''Hero''), (''family'', JStr ''model'')],
                   ch_created_at = ''2025-01-01T10:00:00''\<rparr>,
                 \<lparr>ch_change_type = ''version_upsert'', ch_asset_id = ''model_Hero'',
                   ch_payload_json = JObj [(''version'', JInt 1)],
                   ch_created_at = ''2025-01-01T10:00:00.000250''\<rparr>,
                 \<lparr>ch_change_type = ''file_added'', ch_asset_id = ''model_Hero'',
                   ch_payload_json = JObj [(''version'', JInt 1), (''filename'', JStr ''hero.fbx'')],
                   ch_created_at = ''2025-01-01T10:00:02''\<rparr>,
                 \<lparr>ch_change_type = ''comment'', ch_asset_id = ''model_Hero'',
                   ch_payload_json = JObj [(''author'', JStr ''anna'')],
                   ch_created_at = ''2025-01-01T10:00:01''\<rparr>]\<rparr>"
  by (simp add: hero_db_def init_db_def ensure_asset_def upsert_version_def add_file_def
        add_comment_def insert_change_def)


section \<open>Deleting a version\<close>

lemma get_asset_versions:
  assumes "get_asset db asset_id = Some a"
  shows "set (map vv_version (av_versions a)) =
           v_version ` {r \<in> set (versions db). v_asset_id r = asset_id}"
proof -
  from assms have "map vv_version (av_versions a) =
      map v_version (sort_key (\<lambda>r. - v_version r) (filter (\<lambda>r. v_asset_id r = asset_id) (versions db)))"
    by (auto simp: get_asset_def comp_def split: option.splits)
  then show ?thesis by auto
qed

lemma get_asset_files:
  assumes "get_asset db asset_id = Some a"
  shows "set (map fv_version (av_files a)) =
           f_version ` {f \<in> set (files db). f_asset_id f = asset_id}"
proof -
  from assms have "map fv_version (av_files a) =
      map f_version (filter (\<lambda>f. f_asset_id f = asset_id) (files db))"
    by (auto simp: get_asset_def comp_def split: option.splits)
  then show ?thesis by auto
qed

lemma delete_version_tables:
  "files (delete_version db now asset_id version) =
     filter (\<lambda>f. \<not> (f_asset_id f = asset_id \<and> f_version f = version)) (files db)"
  "versions (delete_version db now asset_id version) =
     filter (\<lambda>r. \<not> (v_asset_id r = asset_id \<and> v_version r = version)) (versions db)"
  "assets (delete_version db now asset_id version) = assets db"
  "comments (delete_version db now asset_id version) = comments db"
  by (simp_all add: delete_version_def insert_change_def)

text \<open>
  Claim C7. For every asset id and version, \<open>delete_version\<close> removes every files row
  and the versions row of the pair: the record a following \<open>get_asset\<close> of the asset
  returns lists no version and no file with that version number (and \<open>get_asset\<close>
  returns no record only if the asset had none before).
\<close>

theorem delete_version_removes:
  "(\<forall>f \<in> set (files (delete_version db now asset_id version)).
      \<not> (f_asset_id f = asset_id \<and> f_version f = version)) \<and>
   (\<forall>r \<in> set (versions (delete_version db now asset_id version)).
      \<not> (v_asset_id r = asset_id \<and> v_version r = version)) \<and>
   (case get_asset (delete_version db now asset_id version) asset_id of
      None \<Rightarrow> get_asset db asset_id = None
    | Some a \<Rightarrow>
        version \<notin> set (map vv_version (av_versions a)) \<and>
        version \<notin> set (map fv_version (av_files a)))"
proof -
  let ?db' = "delete_version db now asset_id version"
  have 1: "\<forall>f \<in> set (files ?db'). \<not> (f_asset_id f = asset_id \<and> f_version f = version)"
    by (simp add: delete_version_tables)
  have 2: "\<forall>r \<in> set (versions ?db'). \<not> (v_asset_id r = asset_id \<and> v_version r = version)"
    by (simp add: delete_version_tables)
  have 3: "case get_asset ?db' asset_id of
      None \<Rightarrow> get_asset db asset_id = None
    | Some a \<Rightarrow>
        version \<notin> set (map vv_version (av_versions a)) \<and>
        version \<notin> set (map fv_version (av_files a))"
  proof (cases "get_asset ?db' asset_id")
    case None
    then show ?thesis
      by (simp add: get_asset_def delete_version_tables split: option.splits)
  next
    case (Some a)
    from get_asset_versions [OF Some] 2 have "version \<notin> set (map vv_version (av_versions a))"
      by auto
    moreover from get_asset_files [OF Some] 1 have "version \<notin> set (map fv_version (av_files a))"
      by auto
    ultimately show ?thesis using Some by simp
  qed
  from 1 2 3 show ?thesis by blast
qed

theorem delete_version_removes_witness:
  "map vv_version (av_versions (the (get_asset
      (upsert_version hero_db ''2025-01-03T08:00:00'' ''model_Hero'' 2 (JObj []) [])
      ''model_Hero''))) = [2, 1] \<and>
   map vv_version (av_versions (the (get_asset
      (delete_version (upsert_version hero_db ''2025-01-03T08:00:00'' ''model_Hero'' 2 (JObj []) [])
         ''2025-01-04T08:00:00'' ''model_Hero'' 1)
      ''model_Hero''))) = [2] \<and>
   av_files (the (get_asset
      (delete_version (upsert_version hero_db ''2025-01-03T08:00:00'' ''model_Hero'' 2 (JObj []) [])
         ''2025-01-04T08:00:00'' ''model_Hero'' 1)
      ''model_Hero'')) = []"
  using delete_version_removes
    [of "upsert_version hero_db ''2025-01-03T08:00:00'' ''model_Hero'' 2 (JObj []) []"
        "''2025-01-04T08:00:00''" "''model_Hero''" 1]
  by (simp add: hero_db_eval upsert_version_def delete_version_def insert_change_def
        get_asset_def)

section \<open>Calls on entities that do not exist\<close>



section \<open>Upserting an asset that exists\<close>

lemma ensure_asset_assets:
  "assets (ensure_asset db now asset_id name family description tags) =
     (if \<exists>a \<in> set (assets db). a_id a = asset_id
      then map (\<lambda>a. if a_id a = asset_id
                    then a\<lparr>a_name := Some name, a_family := family, a_updated_at := now\<rparr>
                    else a) (assets db)
      else assets db @
             [\<lparr>a_id = asset_id, a_name = Some name, a_family = family,
               a_description = Some description, a_tags = Some tags,
               a_status = Some ''published'', a_created_at = now, a_updated_at = now\<rparr>])"
  by (simp add: ensure_asset_def insert_change_def Let_def)

text \<open>
  Claim C9. When a row for the asset id exists, \<open>ensure_asset\<close> changes only the
  name, family and \<open>updated_at\<close> of that row: every row keeps its id, description,
  tags, status and \<open>created_at\<close>, the other tables are untouched, and the description
  and tags passed to the call have no effect on the resulting state.
\<close>

theorem ensure_asset_existing:
  assumes "\<exists>a \<in> set (assets db). a_id a = asset_id"
  shows "assets (ensure_asset db now asset_id name family description tags) =
           map (\<lambda>a. if a_id a = asset_id
                    then a\<lparr>a_name := Some name, a_family := family, a_updated_at := now\<rparr>
                    else a) (assets db) \<and>
         map a_id (assets (ensure_asset db now asset_id name family description tags)) =
           map a_id (assets db) \<and>
         map a_description (assets (ensure_asset db now asset_id name family description tags)) =
           map a_description (assets db) \<and>
         map a_tags (assets (ensure_asset db now asset_id name family description tags)) =
           map a_tags (assets db) \<and>
         map a_status (assets (ensure_asset db now asset_id name family description tags)) =
           map a_status (assets db) \<and>
         map a_created_at (assets (ensure_asset db now asset_id name family description tags)) =
           map a_created_at (assets db) \<and>
         ensure_asset db now asset_id name family description tags =
           ensure_asset db now asset_id name family description' tags' \<and>
         versions (ensure_asset db now asset_id name family description tags) = versions db \<and>
         files (ensure_asset db now asset_id name family description tags) = files db \<and>
         comments (ensure_asset db now asset_id name family description tags) = comments db"
  using assms
  by (simp add: ensure_asset_def insert_change_def Let_def comp_def if_distrib cong: if_cong)

theorem ensure_asset_existing_witness:
  "(\<exists>a \<in> set (assets hero_db). a_id a = ''model_Hero'') \<and>
   assets (ensure_asset hero_db ''2025-03-01T12:00:00'' ''model_Hero'' ''Hero II'' ''rig''
             ''a new description'' ''new,tags'') =
     [\<lparr>a_id = ''model_Hero'', a_name = Some ''Hero II'', a_family = ''rig'',
       a_description = Some [], a_tags = Some [], a_status = Some ''published'',
       a_created_at = ''2025-01-01T10:00:00'', a_updated_at = ''2025-03-01T12:00:00''\<rparr>]"
  using ensure_asset_existing [of hero_db "''model_Hero''" "''2025-03-01T12:00:00''" "''Hero II''"
      "''rig''" "''a new description''" "''new,tags''"]
  by (simp add: hero_db_eval)

section \<open>The role gate\<close>




section \<open>Partial update of an asset\<close>

lemma those_Some_iff: "those xs = Some ys \<longleftrightarrow> xs = map Some ys"
  by (induction xs arbitrary: ys) (auto split: option.splits)

lemma those_None_iff: "those xs = None \<longleftrightarrow> None \<in> set xs"
  by (induction xs) (auto split: option.splits)







lemma bind_all_Some:
  "\<forall>v \<in> set vs. bind v \<noteq> None \<Longrightarrow> map bind vs = map Some (map (the \<circ> bind) vs)"
  by (induction vs) auto

lemma zip_stored:
  "\<forall>v \<in> set (map snd F). bind v \<noteq> None \<Longrightarrow>
   zip (map fst F) (map text_affinity (map (the \<circ> bind) (map snd F))) =
   map (\<lambda>(k, v). (k, stored v)) F"
  by (induction F) (auto simp: stored_def)


lemma update_asset_noop:
  "filter (\<lambda>(k, v). k \<in> allow) flds = [] \<Longrightarrow> update_asset db now asset_id flds = Inr db"
  by (simp add: update_asset_def)

lemma update_asset_unbindable:
  assumes "(k, v) \<in> set flds" "k \<in> allow" "bind v = None"
  shows "update_asset db now asset_id flds = Inl BindingError"
proof -
  let ?F = "filter (\<lambda>(k, v). k \<in> allow) flds"
  from assms have in_F: "(k, v) \<in> set ?F" by simp
  have "?F \<noteq> []"
  proof
    assume "?F = []"
    with in_F show False by simp
  qed
  moreover from in_F assms(3) have "None \<in> set (map bind (map snd ?F))"
    by (force simp: image_iff)
  then have "those (map bind (map snd ?F)) = None" by (simp only: those_None_iff)
  ultimately show ?thesis by (simp add: update_asset_def)
qed

lemma update_asset_writes:
  assumes "filter (\<lambda>(k, v). k \<in> allow) flds \<noteq> []"
    and "\<forall>(k, v) \<in> set flds. k \<in> allow \<longrightarrow> bind v \<noteq> None"
  shows "update_asset db now asset_id flds =
     Inr (insert_change
            (db\<lparr>assets :=
               map (\<lambda>a. if a_id a = asset_id
                        then (foldl set_column a
                                (map (\<lambda>(k, v). (k, stored v)) (filter (\<lambda>(k, v). k \<in> allow) flds)))
                               \<lparr>a_updated_at := now\<rparr>
                        else a)
                   (assets db)\<rparr>)
            ''asset_update'' asset_id (JObj (filter (\<lambda>(k, v). k \<in> allow) flds)) now)"
proof -
  let ?F = "filter (\<lambda>(k, v). k \<in> allow) flds"
  from assms(2) have all: "\<forall>v \<in> set (map snd ?F). bind v \<noteq> None" by auto
  from bind_all_Some [OF all]
  have th: "those (map bind (map snd ?F)) = Some (map (the \<circ> bind) (map snd ?F))"
    by (simp only: those_Some_iff)
  show ?thesis
    unfolding update_asset_def Let_def using assms(1)
    by (simp only: th zip_stored [OF all] map_is_Nil_conv if_False option.case)
qed








section \<open>One change record per writing call\<close>

lemma call_update_writes:
  assumes "writes (Update_asset asset_id flds)"
  shows "changes (call db (now, Update_asset asset_id flds)) =
           changes db @ [\<lparr>ch_change_type = ''asset_update'', ch_asset_id = asset_id,
                          ch_payload_json = JObj (filter (\<lambda>(k, v). k \<in> allow) flds),
                          ch_created_at = now\<rparr>]"
proof -
  from assms have "update_asset db now asset_id flds =
     Inr (insert_change
            (db\<lparr>assets :=
               map (\<lambda>a. if a_id a = asset_id
                        then (foldl set_column a
                                (map (\<lambda>(k, v). (k, stored v)) (filter (\<lambda>(k, v). k \<in> allow) flds)))
                               \<lparr>a_updated_at := now\<rparr>
                        else a)
                   (assets db)\<rparr>)
            ''asset_update'' asset_id (JObj (filter (\<lambda>(k, v). k \<in> allow) flds)) now)"
    by (intro update_asset_writes) auto
  then show ?thesis by (simp add: insert_change_def)
qed

lemma call_update_skips:
  assumes "\<not> writes (Update_asset asset_id flds)"
  shows "call db (now, Update_asset asset_id flds) = db"
proof (cases "filter (\<lambda>(k, v). k \<in> allow) flds = []")
  case True
  then show ?thesis by (simp add: update_asset_noop)
next
  case False
  with assms obtain k v where "(k, v) \<in> set flds" "k \<in> allow" "bind v = None" by auto
  then have "update_asset db now asset_id flds = Inl BindingError"
    by (rule update_asset_unbindable)
  then show ?thesis by simp
qed

lemma call_changes:
  "\<exists>r. ch_change_type r = change_type_of c \<and> ch_created_at r = now \<and>
       changes (call db (now, c)) = changes db @ (if writes c then [r] else [])"
proof (cases c)
  case (Update_asset asset_id flds)
  show ?thesis
  proof (cases "writes c")
    case True
    with call_update_writes [of asset_id flds db now] show ?thesis
      unfolding Update_asset by (intro exI conjI) (simp_all )
  next
    case False
    with call_update_skips [of asset_id flds db now] show ?thesis
      unfolding Update_asset by (intro exI [of _ "\<lparr>ch_change_type = ''asset_update'', ch_asset_id = [], ch_payload_json = JNull, ch_created_at = now\<rparr>"]) simp
  qed
qed (simp_all add: ensure_asset_def upsert_version_def add_file_def archive_version_def
       delete_version_def delete_asset_def add_comment_def insert_change_def Let_def)






section \<open>Validation of an upsert request\<close>

lemma tags_of_cases:
  "tags_of d = Inl e \<Longrightarrow> e = TypeError"
  by (auto simp: tags_of_def split: option.splits json.splits)

lemma tags_of_ok:
  "(\<forall>xs. map_of d ''tags'' = Some (JList xs) \<longrightarrow> str_items xs \<noteq> None) \<Longrightarrow> \<exists>t. tags_of d = Inr t"
  by (auto simp: tags_of_def split: option.splits json.splits)

lemma upsert_asset_no_id:
  assumes "case payload_of body of JObj d \<Rightarrow> \<not> truthy (dict_get d ''asset_id'') | _ \<Rightarrow> True"
  shows "snd (upsert_asset lower int_of_str db now1 now2 body) = db \<and>
         fst (upsert_asset lower int_of_str db now1 now2 body) \<in>
           {Json 400 (JObj [(''error'', JStr ''asset_id required'')]),
            Raised AttributeError, Raised TypeError}"
proof (cases "payload_of body")
  case (JObj d)
  with assms have f: "\<not> truthy (or_else (dict_get d ''asset_id'') (JStr []))"
    by (simp add: or_else_def)
  show ?thesis
  proof (cases "or_else (dict_get d ''family'') (JStr ''unknown'')")
    case (JStr fam)
    show ?thesis
    proof (cases "tags_of d")
      case (Inl e)
      with tags_of_cases [OF Inl] JObj JStr show ?thesis
        by (simp add: upsert_asset_def Let_def)
    next
      case (Inr t)
      with JObj JStr f show ?thesis
        by (simp add: upsert_asset_def Let_def)
    qed
  qed (simp_all add: upsert_asset_def JObj Let_def)
qed (simp_all add: upsert_asset_def)

lemma upsert_asset_400:
  assumes "payload_of body = JObj d" and "\<not> truthy (dict_get d ''asset_id'')"
    and "\<not> truthy (dict_get d ''family'') \<or> (\<exists>s. dict_get d ''family'' = JStr s)"
    and "\<forall>xs. map_of d ''tags'' = Some (JList xs) \<longrightarrow> str_items xs \<noteq> None"
  shows "fst (upsert_asset lower int_of_str db now1 now2 body) =
           Json 400 (JObj [(''error'', JStr ''asset_id required'')])"
proof -
  have "\<exists>fam. or_else (dict_get d ''family'') (JStr ''unknown'') = JStr fam"
  proof (cases "truthy (dict_get d ''family'')")
    case True
    with assms(3) show ?thesis by (auto simp: or_else_def)
  next
    case False
    then show ?thesis by (simp add: or_else_def)
  qed
  then obtain fam where fam: "or_else (dict_get d ''family'') (JStr ''unknown'') = JStr fam" ..
  from tags_of_ok [OF assms(4)] obtain t where t: "tags_of d = Inr t" ..
  from assms(2) have f: "\<not> truthy (or_else (dict_get d ''asset_id'') (JStr []))"
    by (simp add: or_else_def)
  from assms(1) fam t f show ?thesis by (simp add: upsert_asset_def Let_def)
qed

text \<open>
  Claim C10, as the code has it. A \<^verbatim>\<open>POST /api/assets\<close> request whose body has an
  absent or empty \<^verbatim>\<open>asset_id\<close> (any falsy value, or a body that is no object) leaves
  all persistent state unchanged, whatever else it carries: the answer is the gate's 401
  or 403, the 400 of the validation, or an \<^verbatim>\<open>AttributeError\<close> or \<^verbatim>\<open>TypeError\<close>
  raised while the other fields are read, before the validation. The answer is the 400
  when the request passes the editor gate, the body is an object (or empty, or no JSON),
  its \<^verbatim>\<open>family\<close> is a string or falsy, and its \<^verbatim>\<open>tags\<close>, if a list, holds strings.
\<close>

theorem post_assets_requires_id:
  assumes "case payload_of body of JObj d \<Rightarrow> \<not> truthy (dict_get d ''asset_id'') | _ \<Rightarrow> True"
  shows "snd (post_assets lower int_of_str keys db now1 now2 header body) = db \<and>
         fst (post_assets lower int_of_str keys db now1 now2 header body) \<in>
           {Json 401 (JObj [(''error'', JStr ''Unauthorized'')]),
            Json 403 (JObj [(''error'', JStr ''Forbidden'')]),
            Json 400 (JObj [(''error'', JStr ''asset_id required'')]),
            Raised AttributeError, Raised TypeError} \<and>
         (\<forall>role d. require_role ''editor'' keys header = Inr role \<and> payload_of body = JObj d \<and>
             (\<not> truthy (dict_get d ''family'') \<or> (\<exists>s. dict_get d ''family'' = JStr s)) \<and>
             (\<forall>xs. map_of d ''tags'' = Some (JList xs) \<longrightarrow> str_items xs \<noteq> None) \<longrightarrow>
             fst (post_assets lower int_of_str keys db now1 now2 header body) =
               Json 400 (JObj [(''error'', JStr ''asset_id required'')]))"
proof (cases "require_role ''editor'' keys header")
  case (Inl rejection)
  then have "rejection = Json 401 (JObj [(''error'', JStr ''Unauthorized'')]) \<or>
             rejection = Json 403 (JObj [(''error'', JStr ''Forbidden'')])"
    by (auto simp: require_role_def Let_def split: if_splits)
  with Inl show ?thesis by (auto simp: post_assets_def)
next
  case (Inr role)
  then have eq: "post_assets lower int_of_str keys db now1 now2 header body =
                 upsert_asset lower int_of_str db now1 now2 body"
    by (simp add: post_assets_def)
  have "fst (upsert_asset lower int_of_str db now1 now2 body) =
          Json 400 (JObj [(''error'', JStr ''asset_id required'')])"
    if "payload_of body = JObj d"
       "\<not> truthy (dict_get d ''family'') \<or> (\<exists>s. dict_get d ''family'' = JStr s)"
       "\<forall>xs. map_of d ''tags'' = Some (JList xs) \<longrightarrow> str_items xs \<noteq> None" for d
    using that assms by (intro upsert_asset_400 [of body d]) simp_all
  with upsert_asset_no_id [OF assms, of lower int_of_str db now1 now2] show ?thesis
    unfolding eq by blast
qed

text \<open>The claim as stated fails for an editor's request without \<^verbatim>\<open>asset_id\<close> whose
  \<^verbatim>\<open>family\<close> is a number: \<^verbatim>\<open>.lower()\<close> raises before the validation is reached.\<close>

theorem post_assets_requires_id_counterexample:
  "post_assets ascii_lower int_of_digits DEFAULT_KEYS hero_db
     ''2025-06-01T09:00:00'' ''2025-06-01T09:00:01'' (Some ''demo-edit'')
     (Some (JObj [(''name'', JStr ''Hero''), (''family'', JInt 5)])) =
   (Raised AttributeError, hero_db)"
  by (simp add: post_assets_def upsert_asset_def require_role_def DEFAULT_KEYS_def role_rank_def
        get_or_def payload_of_def or_else_def dict_get_def)

theorem post_assets_requires_id_witness:
  "post_assets ascii_lower int_of_digits DEFAULT_KEYS hero_db
     ''2025-06-01T09:00:00'' ''2025-06-01T09:00:01'' (Some ''demo-edit'')
     (Some (JObj [(''asset_id'', JStr []), (''name'', JStr ''Hero''), (''family'', JStr ''Model''),
                  (''tags'', JList [JStr ''hero'', JStr ''lead''])])) =
   (Json 400 (JObj [(''error'', JStr ''asset_id required'')]), hero_db)"
  using post_assets_requires_id [of "Some (JObj [(''asset_id'', JStr []), (''name'', JStr ''Hero''), (''family'', JStr ''Model''),
                  (''tags'', JList [JStr ''hero'', JStr ''lead''])])" ascii_lower int_of_digits
      DEFAULT_KEYS hero_db "''2025-06-01T09:00:00''" "''2025-06-01T09:00:01''" "Some ''demo-edit''"]
  by (simp add: require_role_def DEFAULT_KEYS_def role_rank_def
        get_or_def payload_of_def or_else_def dict_get_def prod_eq_iff)

section \<open>Resolving stored paths\<close>

































section \<open>Invariants of the reachable states\<close>

text \<open>
  Two properties that the theorems above assume of a state hold in every state the
  mutating functions can reach from the empty database: the log holds clock readings
  only (when every clock reading is a non-empty string, as \<^verbatim>\<open>isoformat()\<close> gives),
  and the versions table satisfies its \<^verbatim>\<open>UNIQUE\<close> constraint.
\<close>

lemma stamped_init_db: "stamped init_db"
  by (simp add: stamped_def init_db_def)

lemma stamped_call:
  assumes "stamped db" and "now \<noteq> []"
  shows "stamped (call db (now, c))"
proof -
  from call_changes [of c now db] obtain r where
    "ch_created_at r = now"
    "changes (call db (now, c)) = changes db @ (if writes c then [r] else [])" by blast
  with assms show ?thesis by (auto simp: stamped_def)
qed

lemma stamped_run:
  "stamped db \<Longrightarrow> \<forall>(now, c) \<in> set calls. now \<noteq> [] \<Longrightarrow> stamped (run db calls)"
proof (induction calls arbitrary: db)
  case Nil
  then show ?case by (simp add: run_def)
next
  case (Cons x calls)
  obtain now c where x: "x = (now, c)" by (cases x)
  from Cons.prems have "stamped (call db x)" by (auto simp: x intro: stamped_call)
  from Cons.IH [OF this] Cons.prems(2) show ?case by (simp add: run_def)
qed

lemma unique_versions_init_db: "unique_versions init_db"
  by (simp add: unique_versions_def init_db_def)

lemma update_asset_versions:
  "update_asset db now asset_id flds = Inr db' \<Longrightarrow> versions db' = versions db"
  by (auto simp: update_asset_def Let_def insert_change_def split: if_splits option.splits)

lemma unique_versions_call:
  assumes "unique_versions db"
  shows "unique_versions (call db (now, c))"
proof (cases c)
  case (Upsert_version asset_id version metadata thumbnail_path)
  with assms show ?thesis by (simp add: unique_versions_upsert)
next
  case (Update_asset asset_id flds)
  with assms update_asset_versions [of db now asset_id flds] show ?thesis
    by (auto simp: unique_versions_def split: sum.splits)
next
  case (Archive_version asset_id version)
  have "map (\<lambda>r. (v_asset_id r, v_version r)) (versions (archive_version db now asset_id version)) =
        map (\<lambda>r. (v_asset_id r, v_version r)) (versions db)"
    by (auto simp: archive_version_def insert_change_def)
  with assms Archive_version show ?thesis by (simp add: unique_versions_def)
next
  case (Delete_version asset_id version)
  with assms show ?thesis
    by (simp add: unique_versions_def delete_version_def insert_change_def distinct_map_filter)
next
  case (Delete_asset asset_id)
  with assms show ?thesis
    by (simp add: unique_versions_def delete_asset_def insert_change_def distinct_map_filter)
qed (use assms in \<open>simp_all add: unique_versions_def ensure_asset_def add_file_def add_comment_def
       insert_change_def Let_def\<close>)

lemma unique_versions_run:
  "unique_versions db \<Longrightarrow> unique_versions (run db calls)"
proof (induction calls arbitrary: db)
  case Nil
  then show ?case by (simp add: run_def)
next
  case (Cons x calls)
  obtain now c where x: "x = (now, c)" by (cases x)
  from Cons.prems have "unique_versions (call db x)" unfolding x by (rule unique_versions_call)
  from Cons.IH [OF this] show ?case by (simp add: run_def)
qed

end
